theory Spec2Isabelle
  imports Main "HOL-Library.Word"
begin

section \<open>The PagedAttention node of the CPU plugin (nodes/paged\_attn.cpp)\<close>

text \<open>
  A shallow embedding of \<^verbatim>\<open>src/plugins/intel_cpu/src/nodes/paged_attn.cpp\<close>.
  Every C++ exception is a value \<open>Inl e\<close> of the result type \<open>error + 'a\<close>;
  \<^verbatim>\<open>size_t\<close> is a 64-bit word, so that \<open>-\<close>, \<open>+\<close> and \<open>*\<close> on tensor
  extents wrap as they do in the source.
\<close>

subsection \<open>Element types, errors, sizes\<close>

text \<open>
  \<^verbatim>\<open>ov::element::Type_t\<close>. The enumeration is declared in the core library; the node
  names \<open>bf16\<close>, \<open>f32\<close>, \<open>u8\<close> and \<open>i32\<close>, the other enumerators are listed for
  completeness.
\<close>

datatype Type_t =
  boolean_t | bf16 | f16 | f32 | f64 | i4 | i8 | i16 | i32 | i64
  | u1 | u4 | u8 | u16 | u32 | u64

text \<open>
  The error kinds of the node. \<open>ConfigurationError\<close> carries the message of
  \<^verbatim>\<open>OPENVINO_THROW("CPU: " + errorMessage)\<close> in the constructor, of the
  \<^verbatim>\<open>OPENVINO_ASSERT\<close> on the input number, and of a port access beyond the number of
  ports; \<open>PrecisionError\<close> is the \<^verbatim>\<open>OPENVINO_THROW\<close> of \<open>createPrimitive\<close> with the
  precision it reports; \<open>ShapeError\<close> is a failed validation of a tensor view;
  \<open>OutOfBounds i\<close> stands for \<^verbatim>\<open>inputs[i]\<close> beyond the end of the vector, where
  C++ leaves the behaviour undefined and the model stops.
\<close>

datatype error =
  ConfigurationError string
  | ShapeError
  | PrecisionError string Type_t
  | OutOfBounds nat

type_synonym size_t = "64 word"

definition and_then :: "error + 'a \<Rightarrow> ('a \<Rightarrow> error + 'b) \<Rightarrow> error + 'b" where
  "and_then m f = (case m of Inl e \<Rightarrow> Inl e | Inr x \<Rightarrow> f x)"

subsection \<open>Input positions of the executor\<close>

text \<open>
  Modelled from the spec: the enumerators \<^verbatim>\<open>PagedAttentionExecutor::ID_*\<close> are declared in
  \<^verbatim>\<open>kernels/scaled_attn/executor_pa.hpp\<close>, which is not part of the sources at hand.
  The table of input roles (section 6 of the specification) lists them in positional
  order, query first and the optional subsequence lengths as input 13.
\<close>

definition ID_Q :: nat where "ID_Q = 0"
definition ID_K :: nat where "ID_K = 1"
definition ID_V :: nat where "ID_V = 2"
definition ID_KCACHE :: nat where "ID_KCACHE = 3"
definition ID_VCACHE :: nat where "ID_VCACHE = 4"
definition ID_IS_PROMPT :: nat where "ID_IS_PROMPT = 5"
definition ID_SLOT_MAPPING :: nat where "ID_SLOT_MAPPING = 6"
definition ID_MAX_CONTEXT_LEN :: nat where "ID_MAX_CONTEXT_LEN = 7"
definition ID_CONTEXT_LENS :: nat where "ID_CONTEXT_LENS = 8"
definition ID_BLOCK_TABLES :: nat where "ID_BLOCK_TABLES = 9"
definition ID_SCALE :: nat where "ID_SCALE = 10"
definition ID_ALIBI_SLOPES :: nat where "ID_ALIBI_SLOPES = 11"
definition ID_SLIDING_WINDOW :: nat where "ID_SLIDING_WINDOW = 12"
definition ID_SUBSEQUENCE_LENS :: nat where "ID_SUBSEQUENCE_LENS = 13"

subsection \<open>Operations, nodes and the platform\<close>

text \<open>A port of an operation or node: its element type and its shape.\<close>

record Port =
  port_prec :: Type_t
  port_shape :: "size_t list"

text \<open>
  \<^verbatim>\<open>ov::Node\<close>, as far as the CPU node reads it: the type name and the input and output
  ports. \<open>get_input_size\<close> and \<open>get_type_name\<close> are total on it.
\<close>

record ov_Node =
  type_name :: string
  op_inputs :: "Port list"
  op_outputs :: "Port list"

definition get_input_size :: "ov_Node \<Rightarrow> nat" where
  "get_input_size op = length (op_inputs op)"

definition get_type_name :: "ov_Node \<Rightarrow> string" where
  "get_type_name op = type_name op"

text \<open>\<^verbatim>\<open>static_cast<int>\<close> of a \<^verbatim>\<open>size_t\<close>: the low 32 bits, read as two's complement.\<close>

definition static_cast_int :: "nat \<Rightarrow> int" where
  "static_cast_int n = sint (word_of_nat n :: 32 word)"

text \<open>
  What the node asks of the machine it is compiled for and runs on:
  \<^verbatim>\<open>ov::with_cpu_x86_bfloat16()\<close> and the macro \<^verbatim>\<open>OPENVINO_ARCH_X86_64\<close>.
\<close>

record Platform =
  with_cpu_x86_bfloat16 :: bool
  OPENVINO_ARCH_X86_64 :: bool

record MemoryDesc =
  desc_prec :: Type_t
  desc_shape :: "size_t list"

record NodeConfig =
  inConfs :: "MemoryDesc option list"
  outConfs :: "MemoryDesc option list"

datatype impl_desc_type = ref_any

text \<open>
  The CPU node: the ports taken over from the operation by the base class, the
  primitive descriptors and the executor (\<open>None\<close> is the null pointer).
\<close>

record 'ex Node =
  in_ports :: "Port list"
  out_ports :: "Port list"
  supportedPrimitiveDescriptors :: "(NodeConfig \<times> impl_desc_type) list"
  m_executor :: "'ex option"

definition getOriginalInputsNumber :: "'ex Node \<Rightarrow> nat" where
  "getOriginalInputsNumber node = length (in_ports node)"

definition getOriginalOutputsNumber :: "'ex Node \<Rightarrow> nat" where
  "getOriginalOutputsNumber node = length (out_ports node)"

text \<open>
  Modelled from the spec: the accessors of the base class \<^verbatim>\<open>Node\<close> are declared in
  \<^verbatim>\<open>node.h\<close>, which is not part of the sources at hand. A port at or beyond the number
  of ports is a wrong input count, which section 7 of the specification reports as a
  \<open>ConfigurationError\<close>.
\<close>

definition port_at :: "Port list \<Rightarrow> nat \<Rightarrow> error + Port" where
  "port_at ports i =
     (if i < length ports then Inr (ports ! i)
      else Inl (ConfigurationError ''Incorrect port number for node''))"

definition getOriginalInputPrecisionAtPort :: "'ex Node \<Rightarrow> nat \<Rightarrow> error + Type_t" where
  "getOriginalInputPrecisionAtPort node i =
     and_then (port_at (in_ports node) i) (\<lambda>p. Inr (port_prec p))"

definition getInputShapeAtPort :: "'ex Node \<Rightarrow> nat \<Rightarrow> error + size_t list" where
  "getInputShapeAtPort node i =
     and_then (port_at (in_ports node) i) (\<lambda>p. Inr (port_shape p))"

definition getOutputShapeAtPort :: "'ex Node \<Rightarrow> nat \<Rightarrow> error + size_t list" where
  "getOutputShapeAtPort node i =
     and_then (port_at (out_ports node) i) (\<lambda>p. Inr (port_shape p))"

subsection \<open>getRuntimePrecision\<close>

definition getRuntimePrecision :: "Platform \<Rightarrow> 'ex Node \<Rightarrow> error + Type_t" where
  "getRuntimePrecision pf node =
     and_then (getOriginalInputPrecisionAtPort node 0) (\<lambda>rtPrecision.
       if rtPrecision = bf16 \<and> with_cpu_x86_bfloat16 pf then Inr bf16 else Inr f32)"

subsection \<open>isSupportedOperation and the constructor\<close>

text \<open>
  The source returns \<^verbatim>\<open>true\<close> inside the \<^verbatim>\<open>if\<close> and \<^verbatim>\<open>true\<close> after the
  \<^verbatim>\<open>try\<close> block; \<^verbatim>\<open>false\<close> is returned only from the \<^verbatim>\<open>catch (...)\<close>, which
  neither accessor of the operation can reach. The message is an out-parameter that no
  path assigns: it is returned as it came.
\<close>

definition isSupportedOperation :: "ov_Node \<Rightarrow> string \<Rightarrow> bool \<times> string" where
  "isSupportedOperation op errorMessage =
     (let orgInput = static_cast_int (get_input_size op) in
      if get_type_name op = ''PagedAttentionExtension''
         \<and> orgInput = int ID_SLIDING_WINDOW + 1
      then (True, errorMessage)
      else (True, errorMessage))"

text \<open>
  The constructor: the base class takes the ports of the operation over, with no
  descriptors and no executor yet; the body throws when the operation is not supported.
\<close>

definition PagedAttention :: "ov_Node \<Rightarrow> error + 'ex Node" where
  "PagedAttention op =
     (let node = \<lparr>in_ports = op_inputs op, out_ports = op_outputs op,
                   supportedPrimitiveDescriptors = [], m_executor = None\<rparr>;
          (supported, errorMessage) = isSupportedOperation op [] in
      if \<not> supported then Inl (ConfigurationError (''CPU: '' @ errorMessage))
      else Inr node)"

subsection \<open>initSupportedPrimitiveDescriptors\<close>

definition createSharedDesc :: "Type_t \<Rightarrow> size_t list \<Rightarrow> MemoryDesc" where
  "createSharedDesc prec shape = \<lparr>desc_prec = prec, desc_shape = shape\<rparr>"

text \<open>
  One statement \<^verbatim>\<open>config.inConfs[port].setMemDesc(... createSharedDesc(prec,
  getInputShapeAtPort(port)))\<close>. \<open>inConfs\<close> has one entry per input port, so the shape
  accessor fails exactly where the index would leave the vector.
\<close>

definition setInConf :: "'ex Node \<Rightarrow> nat \<Rightarrow> Type_t \<Rightarrow> NodeConfig \<Rightarrow> error + NodeConfig" where
  "setInConf node port prec config =
     and_then (getInputShapeAtPort node port) (\<lambda>shape.
       Inr (config\<lparr>inConfs := (inConfs config)[port := Some (createSharedDesc prec shape)]\<rparr>))"

definition setOutConf :: "'ex Node \<Rightarrow> nat \<Rightarrow> Type_t \<Rightarrow> NodeConfig \<Rightarrow> error + NodeConfig" where
  "setOutConf node port prec config =
     and_then (getOutputShapeAtPort node port) (\<lambda>shape.
       Inr (config\<lparr>outConfs := (outConfs config)[port := Some (createSharedDesc prec shape)]\<rparr>))"

definition initSupportedPrimitiveDescriptors :: "Platform \<Rightarrow> 'ex Node \<Rightarrow> error + 'ex Node" where
  "initSupportedPrimitiveDescriptors pf node =
     (if supportedPrimitiveDescriptors node \<noteq> [] then Inr node
      else
        and_then (getRuntimePrecision pf node) (\<lambda>rtPrecision.
        let orgInputNumber = getOriginalInputsNumber node;
            config = \<lparr>inConfs = replicate orgInputNumber None,
                      outConfs = replicate (getOriginalOutputsNumber node) None\<rparr> in
        and_then (setInConf node 0 rtPrecision config) (\<lambda>config.
        and_then (setInConf node 1 rtPrecision config) (\<lambda>config.
        and_then (setInConf node 2 rtPrecision config) (\<lambda>config.
        if \<not> (orgInputNumber = 13 \<or> orgInputNumber = 14)
        then Inl (ConfigurationError ''The input number of PagedAttention should be 13 or 14.'')
        else
        and_then (getOriginalInputPrecisionAtPort node ID_KCACHE) (\<lambda>past_kv_input_mem_precision.
        and_then (setInConf node ID_KCACHE past_kv_input_mem_precision config) (\<lambda>config.
        and_then (setInConf node ID_VCACHE past_kv_input_mem_precision config) (\<lambda>config.
        and_then (setInConf node ID_IS_PROMPT u8 config) (\<lambda>config.
        and_then (setInConf node ID_SLOT_MAPPING i32 config) (\<lambda>config.
        and_then (setInConf node ID_MAX_CONTEXT_LEN i32 config) (\<lambda>config.
        and_then (setInConf node ID_CONTEXT_LENS i32 config) (\<lambda>config.
        and_then (setInConf node ID_BLOCK_TABLES i32 config) (\<lambda>config.
        and_then (setInConf node ID_SCALE f32 config) (\<lambda>config.
        and_then (setInConf node ID_ALIBI_SLOPES f32 config) (\<lambda>config.
        and_then (setInConf node ID_SLIDING_WINDOW i32 config) (\<lambda>config.
        and_then (if orgInputNumber = 14
                  then setInConf node ID_SUBSEQUENCE_LENS i32 config
                  else Inr config) (\<lambda>config.
        and_then (setOutConf node 0 rtPrecision config) (\<lambda>config.
        Inr (node\<lparr>supportedPrimitiveDescriptors :=
                     supportedPrimitiveDescriptors node @ [(config, ref_any)]\<rparr>)))))))))))))))))))"

text \<open>
  Setting a node up, before anything is executed: the constructor, then the
  initialisation of the descriptors.
\<close>

definition setup_node :: "Platform \<Rightarrow> ov_Node \<Rightarrow> error + 'ex Node" where
  "setup_node pf op = and_then (PagedAttention op) (initSupportedPrimitiveDescriptors pf)"

subsection \<open>The executor cache and createPrimitive\<close>

record PagedAttentionKey =
  rtPrecision :: Type_t

text \<open>
  \<^verbatim>\<open>hash_combine\<close> and \<^verbatim>\<open>ov::element::Type::hash\<close> are declared elsewhere; the
  hash of a key takes them as parameters.
\<close>

definition PagedAttentionKey_hash ::
  "(size_t \<Rightarrow> size_t \<Rightarrow> size_t) \<Rightarrow> (Type_t \<Rightarrow> size_t) \<Rightarrow> PagedAttentionKey \<Rightarrow> size_t" where
  "PagedAttentionKey_hash hash_combine Type_hash key =
     (let seed = 0; seed = hash_combine seed (Type_hash (rtPrecision key)) in seed)"

definition PagedAttentionKey_eq :: "PagedAttentionKey \<Rightarrow> PagedAttentionKey \<Rightarrow> bool" where
  "PagedAttentionKey_eq lhs rhs = (let retVal = (rtPrecision lhs = rtPrecision rhs) in retVal)"

text \<open>
  Modelled from the spec: the parameter cache of the graph context
  (\<^verbatim>\<open>context->getParamsCache()\<close>) is declared outside the sources at hand. Sections 5
  and 9 of the specification describe it as a mapping from an immutable configuration
  key to a lazily constructed, shared executor instance: a key that is present gives its
  instance, a key that is absent runs the builder and keeps what it built. An exception
  of the builder passes through.
\<close>

type_synonym 'ex ParamsCache = "(PagedAttentionKey \<times> 'ex) list"

fun cache_get :: "'ex ParamsCache \<Rightarrow> PagedAttentionKey \<Rightarrow> 'ex option" where
  "cache_get [] key = None"
| "cache_get ((k, v) # rest) key = (if PagedAttentionKey_eq k key then Some v else cache_get rest key)"

definition getOrCreate ::
  "'ex ParamsCache \<Rightarrow> PagedAttentionKey \<Rightarrow> (PagedAttentionKey \<Rightarrow> error + 'ex option)
     \<Rightarrow> error + ('ex option \<times> 'ex ParamsCache)" where
  "getOrCreate cache key builder =
     (case cache_get cache key of
        Some v \<Rightarrow> Inr (Some v, cache)
      | None \<Rightarrow>
          and_then (builder key) (\<lambda>built.
            case built of
              None \<Rightarrow> Inr (None, cache)
            | Some v \<Rightarrow> Inr (Some v, (key, v) # cache)))"

text \<open>
  The builder lambda of \<open>createPrimitive\<close>. \<^verbatim>\<open>make_pa_executor\<close> is declared in
  \<^verbatim>\<open>executor_pa.hpp\<close> and is a parameter; \<open>None\<close> is its null pointer.
\<close>

definition builder ::
  "Platform \<Rightarrow> (Type_t \<Rightarrow> Type_t \<Rightarrow> 'ex option) \<Rightarrow> 'ex Node \<Rightarrow> Type_t
     \<Rightarrow> PagedAttentionKey \<Rightarrow> error + 'ex option" where
  "builder pf make_pa_executor node rtPrec key =
     (if OPENVINO_ARCH_X86_64 pf
      then and_then (getOriginalInputPrecisionAtPort node ID_KCACHE) (\<lambda>kvCachePrecision.
             Inr (make_pa_executor rtPrec kvCachePrecision))
      else Inr None)"

definition createPrimitive ::
  "Platform \<Rightarrow> (Type_t \<Rightarrow> Type_t \<Rightarrow> 'ex option) \<Rightarrow> 'ex Node \<times> 'ex ParamsCache
     \<Rightarrow> error + ('ex Node \<times> 'ex ParamsCache)" where
  "createPrimitive pf make_pa_executor st =
     (case st of (node, cache) \<Rightarrow>
        and_then (getRuntimePrecision pf node) (\<lambda>rtPrec.
        let key = \<lparr>rtPrecision = rtPrec\<rparr> in
        and_then (getOrCreate cache key (builder pf make_pa_executor node rtPrec)) (\<lambda>result.
        if fst result = None
        then Inl (PrecisionError ''PagedAttention AttentionExecutor creation fails with precision '' rtPrec)
        else Inr (node\<lparr>m_executor := fst result\<rparr>, snd result))))"

subsection \<open>Tensor views\<close>

text \<open>\<^verbatim>\<open>MemoryPtr\<close>: the element type and the extents of a buffer, and the buffer.\<close>

record Memory =
  mem_prec :: Type_t
  mem_dims :: "size_t list"
  mem_data :: nat

text \<open>
  Modelled from the spec: \<^verbatim>\<open>PlainTensor\<close> is declared in \<^verbatim>\<open>utils/plain_tensor.hpp\<close>,
  which is not part of the sources at hand. Section 4.1 of the specification gives its
  contract: \<open>reset\<close> binds the view to a buffer and its declared shape and element
  type; \<open>size\<close> returns the extent of an axis; \<open>reshape\<close> fails with \<open>ShapeError\<close>
  if the element count mismatches; \<open>permute\<close> reorders the logical axes without moving
  data; \<open>assert_dims\<close> fails with \<open>ShapeError\<close> if a dimension that is not a
  wildcard mismatches. Every access is validated against the declared dimensions, so an
  axis beyond the rank is a \<open>ShapeError\<close> too. A wildcard is an expected extent of 0
  when wildcards are allowed, as in \<^verbatim>\<open>slot_mapping.assert_dims({B, 0}, true)\<close>.
\<close>

record PlainTensor =
  m_dt :: Type_t
  m_dims :: "size_t list"
  m_strides :: "size_t list"
  m_ptr :: nat

fun dense_strides :: "size_t list \<Rightarrow> size_t list" where
  "dense_strides [] = []"
| "dense_strides (d # ds) = prod_list ds # dense_strides ds"

definition element_count :: "size_t list \<Rightarrow> nat" where
  "element_count dims = prod_list (map unat dims)"

definition reset :: "Memory \<Rightarrow> PlainTensor" where
  "reset mem = \<lparr>m_dt = mem_prec mem, m_dims = mem_dims mem,
                 m_strides = dense_strides (mem_dims mem), m_ptr = mem_data mem\<rparr>"

definition size_at :: "PlainTensor \<Rightarrow> nat \<Rightarrow> error + size_t" where
  "size_at t i = (if i < length (m_dims t) then Inr (m_dims t ! i) else Inl ShapeError)"

definition is_dims :: "PlainTensor \<Rightarrow> size_t list \<Rightarrow> bool \<Rightarrow> bool" where
  "is_dims t expect_dims special_zero =
     list_all2 (\<lambda>e d. (special_zero \<and> e = 0) \<or> e = d) expect_dims (m_dims t)"

definition assert_dims :: "PlainTensor \<Rightarrow> size_t list \<Rightarrow> bool \<Rightarrow> error + unit" where
  "assert_dims t expect_dims special_zero =
     (if is_dims t expect_dims special_zero then Inr () else Inl ShapeError)"

definition reshape :: "PlainTensor \<Rightarrow> size_t list \<Rightarrow> error + PlainTensor" where
  "reshape t target_shape =
     (if element_count target_shape = element_count (m_dims t)
      then Inr (t\<lparr>m_dims := target_shape, m_strides := dense_strides target_shape\<rparr>)
      else Inl ShapeError)"

definition permute :: "PlainTensor \<Rightarrow> nat list \<Rightarrow> error + PlainTensor" where
  "permute t order =
     (if length order = length (m_dims t) \<and> distinct order
         \<and> list_all (\<lambda>i. i < length (m_dims t)) order
      then Inr (t\<lparr>m_dims := map (\<lambda>i. m_dims t ! i) order,
                  m_strides := map (\<lambda>i. m_strides t ! i) order\<rparr>)
      else Inl ShapeError)"

subsection \<open>The cache-population step\<close>

text \<open>\<^verbatim>\<open>inputs[i]\<close> on the vector of input memories.\<close>

definition input_at :: "Memory list \<Rightarrow> nat \<Rightarrow> error + Memory" where
  "input_at inputs i = (if i < length inputs then Inr (inputs ! i) else Inl (OutOfBounds i))"

text \<open>
  The two cache writers are kernels declared in \<^verbatim>\<open>attn_quant.hpp\<close> and
  \<^verbatim>\<open>attn_memcpy.hpp\<close>. The step ends by calling one of them; the model returns that
  call, with the views it is given: new K, new V, K-cache, V-cache and the slot mapping.
\<close>

datatype writer_call =
  paged_attn_quantkv PlainTensor PlainTensor PlainTensor PlainTensor PlainTensor
  | paged_attn_memcpy PlainTensor PlainTensor PlainTensor PlainTensor PlainTensor

definition gatherConcatPastkvForPagedAttn :: "Memory list \<Rightarrow> error + writer_call" where
  "gatherConcatPastkvForPagedAttn inputs =
     and_then (input_at inputs ID_K) (\<lambda>mem_k.
     and_then (input_at inputs ID_V) (\<lambda>mem_v.
     and_then (input_at inputs ID_KCACHE) (\<lambda>mem_k_cache.
     and_then (input_at inputs ID_VCACHE) (\<lambda>mem_v_cache.
     and_then (input_at inputs ID_SLOT_MAPPING) (\<lambda>mem_slot_mapping.
     let k = reset mem_k; v = reset mem_v;
         k_cache = reset mem_k_cache; v_cache = reset mem_v_cache;
         slot_mapping = reset mem_slot_mapping in
     and_then (size_at k 0) (\<lambda>B.
     and_then (size_at k 1) (\<lambda>L1.
     and_then (size_at k_cache 1) (\<lambda>H.
     and_then (size_at v_cache 3) (\<lambda>v_cache_size_3.
     let S = v_cache_size_3 - (if m_dt k_cache = u8 then 8 else 0) in
     and_then (assert_dims k [B, L1, H * S] False) (\<lambda>_.
     and_then (assert_dims v [B, L1, H * S] False) (\<lambda>_.
     and_then (assert_dims slot_mapping [B, 0] True) (\<lambda>_.
     and_then (and_then (reshape k [B, L1, H, S]) (\<lambda>t. permute t [0, 2, 1, 3])) (\<lambda>k.
     and_then (and_then (reshape v [B, L1, H, S]) (\<lambda>t. permute t [0, 2, 1, 3])) (\<lambda>v.
     if m_dt k_cache = u8 then
       and_then (assert_dims k_cache [0, H, 0, S + 8] True) (\<lambda>_.
       and_then (assert_dims v_cache [m_dims k_cache ! 0, H, m_dims k_cache ! 2, S + 8] False) (\<lambda>_.
       Inr (paged_attn_quantkv k v k_cache v_cache slot_mapping)))
     else
       and_then (assert_dims k_cache [0, H, 0, S] True) (\<lambda>_.
       and_then (assert_dims v_cache [m_dims k_cache ! 0, H, m_dims k_cache ! 2, S] False) (\<lambda>_.
       Inr (paged_attn_memcpy k v k_cache v_cache slot_mapping)))))))))))))))))"

text \<open>Which writer a call is, and the views it carries.\<close>

fun is_quantkv :: "writer_call \<Rightarrow> bool" where
  "is_quantkv (paged_attn_quantkv k v kc vc sm) = True"
| "is_quantkv (paged_attn_memcpy k v kc vc sm) = False"

fun call_k :: "writer_call \<Rightarrow> PlainTensor" where
  "call_k (paged_attn_quantkv k v kc vc sm) = k"
| "call_k (paged_attn_memcpy k v kc vc sm) = k"


fun call_k_cache :: "writer_call \<Rightarrow> PlainTensor" where
  "call_k_cache (paged_attn_quantkv k v kc vc sm) = kc"
| "call_k_cache (paged_attn_memcpy k v kc vc sm) = kc"

fun call_v_cache :: "writer_call \<Rightarrow> PlainTensor" where
  "call_v_cache (paged_attn_quantkv k v kc vc sm) = vc"
| "call_v_cache (paged_attn_memcpy k v kc vc sm) = vc"


definition head_dim :: "Memory list \<Rightarrow> size_t" where
  "head_dim inputs =
     mem_dims (inputs ! ID_VCACHE) ! 3 - (if mem_prec (inputs ! ID_KCACHE) = u8 then 8 else 0)"

subsection \<open>Concrete inputs\<close>

text \<open>
  Thirteen input memories in the positional order of the executor, for one sequence
  with one new token; the element type of the two caches and the extents of K, V and the
  caches vary.
\<close>

definition example_inputs ::
  "Type_t \<Rightarrow> size_t list \<Rightarrow> size_t list \<Rightarrow> size_t list \<Rightarrow> size_t list \<Rightarrow> Memory list" where
  "example_inputs cache_prec k_dims v_dims k_cache_dims v_cache_dims =
     [\<lparr>mem_prec = f32, mem_dims = k_dims, mem_data = 0\<rparr>,
      \<lparr>mem_prec = f32, mem_dims = k_dims, mem_data = 1\<rparr>,
      \<lparr>mem_prec = f32, mem_dims = v_dims, mem_data = 2\<rparr>,
      \<lparr>mem_prec = cache_prec, mem_dims = k_cache_dims, mem_data = 3\<rparr>,
      \<lparr>mem_prec = cache_prec, mem_dims = v_cache_dims, mem_data = 4\<rparr>,
      \<lparr>mem_prec = u8, mem_dims = [], mem_data = 5\<rparr>,
      \<lparr>mem_prec = i32, mem_dims = [1, 1], mem_data = 6\<rparr>,
      \<lparr>mem_prec = i32, mem_dims = [], mem_data = 7\<rparr>,
      \<lparr>mem_prec = i32, mem_dims = [1], mem_data = 8\<rparr>,
      \<lparr>mem_prec = i32, mem_dims = [1, 1], mem_data = 9\<rparr>,
      \<lparr>mem_prec = f32, mem_dims = [], mem_data = 10\<rparr>,
      \<lparr>mem_prec = f32, mem_dims = [0], mem_data = 11\<rparr>,
      \<lparr>mem_prec = i32, mem_dims = [], mem_data = 12\<rparr>]"

text \<open>Two heads of dimension 4, four blocks of 32 slots; plain and quantized storage.\<close>

definition example_plain :: "Memory list" where
  "example_plain = example_inputs f32 [1, 1, 8] [1, 1, 8] [4, 2, 32, 4] [4, 2, 32, 4]"

definition example_quant :: "Memory list" where
  "example_quant = example_inputs u8 [1, 1, 8] [1, 1, 8] [4, 2, 32, 12] [4, 2, 32, 12]"

text \<open>New K and V of last extent 6 against two heads of dimension 4.\<close>

definition example_head_mismatch :: "Memory list" where
  "example_head_mismatch = example_inputs f32 [1, 1, 6] [1, 1, 6] [4, 2, 32, 4] [4, 2, 32, 4]"

text \<open>A V-cache of five blocks against a K-cache of four.\<close>

definition example_block_mismatch :: "Memory list" where
  "example_block_mismatch = example_inputs f32 [1, 1, 8] [1, 1, 8] [4, 2, 32, 4] [5, 2, 32, 4]"

text \<open>A V-cache whose last extent is 0 beside a K-cache whose last extent is 64.\<close>

definition example_zero_extent :: "Memory list" where
  "example_zero_extent = example_inputs f32 [1, 1, 0] [1, 1, 0] [4, 2, 32, 64] [4, 2, 32, 0]"

text \<open>
  The fourteen input ports of a PagedAttention operation for the memories above, with
  the element type of the query, key and value and that of the caches; an operation
  and a fresh node with the first \<open>n\<close> of them and one output.
\<close>

definition example_ports :: "Type_t \<Rightarrow> Type_t \<Rightarrow> Port list" where
  "example_ports prec cache_prec =
     [\<lparr>port_prec = prec, port_shape = [1, 1, 8]\<rparr>,
      \<lparr>port_prec = prec, port_shape = [1, 1, 8]\<rparr>,
      \<lparr>port_prec = prec, port_shape = [1, 1, 8]\<rparr>,
      \<lparr>port_prec = cache_prec, port_shape = [4, 2, 32, 4]\<rparr>,
      \<lparr>port_prec = cache_prec, port_shape = [4, 2, 32, 4]\<rparr>,
      \<lparr>port_prec = u8, port_shape = []\<rparr>,
      \<lparr>port_prec = i32, port_shape = [1, 1]\<rparr>,
      \<lparr>port_prec = i32, port_shape = []\<rparr>,
      \<lparr>port_prec = i32, port_shape = [1]\<rparr>,
      \<lparr>port_prec = i32, port_shape = [1, 1]\<rparr>,
      \<lparr>port_prec = f32, port_shape = []\<rparr>,
      \<lparr>port_prec = f32, port_shape = [0]\<rparr>,
      \<lparr>port_prec = i32, port_shape = []\<rparr>,
      \<lparr>port_prec = i32, port_shape = [1]\<rparr>]"

definition example_op :: "Type_t \<Rightarrow> Type_t \<Rightarrow> nat \<Rightarrow> ov_Node" where
  "example_op prec cache_prec n =
     \<lparr>type_name = ''PagedAttentionExtension'',
      op_inputs = take n (example_ports prec cache_prec),
      op_outputs = [\<lparr>port_prec = prec, port_shape = [1, 1, 8]\<rparr>]\<rparr>"

text \<open>In the examples an executor is the pair of precisions it was made for.\<close>

definition example_node :: "Type_t \<Rightarrow> Type_t \<Rightarrow> nat \<Rightarrow> (Type_t \<times> Type_t) Node" where
  "example_node prec cache_prec n =
     \<lparr>in_ports = take n (example_ports prec cache_prec),
      out_ports = [\<lparr>port_prec = prec, port_shape = [1, 1, 8]\<rparr>],
      supportedPrimitiveDescriptors = [], m_executor = None\<rparr>"

definition example_make_pa_executor :: "Type_t \<Rightarrow> Type_t \<Rightarrow> (Type_t \<times> Type_t) option" where
  "example_make_pa_executor rtPrec kvCachePrecision = Some (rtPrec, kvCachePrecision)"

definition example_x86_bf16 :: Platform where
  "example_x86_bf16 = \<lparr>with_cpu_x86_bfloat16 = True, OPENVINO_ARCH_X86_64 = True\<rparr>"

definition example_x86 :: Platform where
  "example_x86 = \<lparr>with_cpu_x86_bfloat16 = False, OPENVINO_ARCH_X86_64 = True\<rparr>"

definition example_other_arch :: Platform where
  "example_other_arch = \<lparr>with_cpu_x86_bfloat16 = False, OPENVINO_ARCH_X86_64 = False\<rparr>"

definition example_hash_combine :: "size_t \<Rightarrow> size_t \<Rightarrow> size_t" where
  "example_hash_combine seed v = 31 * seed + v"

definition example_Type_hash :: "Type_t \<Rightarrow> size_t" where
  "example_Type_hash t = (if t = bf16 then 3 else if t = f32 then 5 else 0)"

section \<open>Properties\<close>

lemmas ID_defs =
  ID_Q_def ID_K_def ID_V_def ID_KCACHE_def ID_VCACHE_def ID_IS_PROMPT_def
  ID_SLOT_MAPPING_def ID_MAX_CONTEXT_LEN_def ID_CONTEXT_LENS_def ID_BLOCK_TABLES_def
  ID_SCALE_def ID_ALIBI_SLOPES_def ID_SLIDING_WINDOW_def ID_SUBSEQUENCE_LENS_def

lemma and_then_Inr [simp]: "and_then (Inr x) f = f x"
  by (simp add: and_then_def)

lemma and_then_Inl [simp]: "and_then (Inl e) f = Inl e"
  by (simp add: and_then_def)

lemma and_then_InrE:
  assumes "and_then m f = Inr y"
  obtains x where "m = Inr x" and "f x = Inr y"
  using assms by (cases m) simp_all

lemma and_then_InlE:
  assumes "and_then m f = Inl e"
  obtains "m = Inl e" | x where "m = Inr x" and "f x = Inl e"
  using assms by (cases m) simp_all

subsection \<open>Tensor views\<close>

lemma reset_sel [simp]:
  "m_dt (reset m) = mem_prec m" "m_dims (reset m) = mem_dims m" "m_ptr (reset m) = mem_data m"
  by (simp_all add: reset_def)

lemma input_at_Inr: "input_at inputs i = Inr m \<longleftrightarrow> i < length inputs \<and> m = inputs ! i"
  by (auto simp: input_at_def)

lemma input_at_Inl: "input_at inputs i = Inl e \<Longrightarrow> \<not> i < length inputs"
  by (simp add: input_at_def split: if_splits)

lemma size_at_Inr: "size_at t i = Inr d \<longleftrightarrow> i < length (m_dims t) \<and> d = m_dims t ! i"
  by (auto simp: size_at_def)

lemma size_at_Inl: "size_at t i = Inl e \<Longrightarrow> e = ShapeError"
  by (simp add: size_at_def split: if_splits)

lemma assert_dims_Inr: "assert_dims t ds z = Inr u \<longleftrightarrow> is_dims t ds z"
  by (simp add: assert_dims_def)

lemma assert_dims_Inl: "assert_dims t ds z = Inl e \<Longrightarrow> e = ShapeError"
  by (simp add: assert_dims_def split: if_splits)

lemma reshape_Inr:
  "reshape t ds = Inr t' \<longleftrightarrow>
     element_count ds = element_count (m_dims t)
     \<and> t' = t\<lparr>m_dims := ds, m_strides := dense_strides ds\<rparr>"
  by (auto simp: reshape_def)

lemma reshape_Inl: "reshape t ds = Inl e \<Longrightarrow> e = ShapeError"
  by (simp add: reshape_def split: if_splits)

lemma permute_Inl: "permute t order = Inl e \<Longrightarrow> e = ShapeError"
  by (simp add: permute_def split: if_splits)

text \<open>Without wildcards the expected extents are the extents, rank included.\<close>

lemma is_dims_False: "is_dims t ds False \<longleftrightarrow> m_dims t = ds"
  by (auto simp: is_dims_def list.rel_eq)

text \<open>
  The check of the K-cache, with wildcards on: an expected extent that is 0 is met by
  every extent, on the axes written as 0 in the source and on the other two as well.
\<close>

lemma is_dims_cache:
  "is_dims t [0, H, 0, W] True \<longleftrightarrow>
     (\<exists>NB h BS w. m_dims t = [NB, h, BS, w] \<and> (H = 0 \<or> H = h) \<and> (W = 0 \<or> W = w))"
  by (auto simp: is_dims_def list_all2_Cons1)

subsection \<open>The cache-population step: what a call that returns has checked\<close>

lemma gather_Inr:
  assumes "gatherConcatPastkvForPagedAttn inputs = Inr c"
  shows "\<exists>B L1 H S NB BS W k v.
           ID_SLOT_MAPPING < length inputs
         \<and> S = mem_dims (inputs ! ID_VCACHE) ! 3
                 - (if mem_prec (inputs ! ID_KCACHE) = u8 then 8 else 0)
         \<and> mem_dims (inputs ! ID_K) = [B, L1, H * S]
         \<and> mem_dims (inputs ! ID_V) = [B, L1, H * S]
         \<and> mem_dims (inputs ! ID_KCACHE) = [NB, H, BS, W]
         \<and> mem_dims (inputs ! ID_VCACHE) = [NB, H, BS, mem_dims (inputs ! ID_VCACHE) ! 3]
         \<and> (W = mem_dims (inputs ! ID_VCACHE) ! 3 \<or> mem_dims (inputs ! ID_VCACHE) ! 3 = 0)
         \<and> m_dims k = [B, H, L1, S] \<and> m_dims v = [B, H, L1, S]
         \<and> c = (if mem_prec (inputs ! ID_KCACHE) = u8
                then paged_attn_quantkv k v (reset (inputs ! ID_KCACHE))
                       (reset (inputs ! ID_VCACHE)) (reset (inputs ! ID_SLOT_MAPPING))
                else paged_attn_memcpy k v (reset (inputs ! ID_KCACHE))
                       (reset (inputs ! ID_VCACHE)) (reset (inputs ! ID_SLOT_MAPPING)))"
  using assms
  unfolding gatherConcatPastkvForPagedAttn_def Let_def
  apply (elim and_then_InrE)
  apply (simp only: input_at_Inr)
  apply (cases "mem_prec (inputs ! ID_KCACHE) = u8")
   apply (simp_all only: reset_sel if_True if_False simp_thms)
   apply (elim and_then_InrE conjE)
   apply (clarsimp simp: size_at_Inr assert_dims_Inr is_dims_False is_dims_cache reshape_Inr)
   apply (auto simp: permute_def ID_defs split: if_splits)[1]
  apply (elim and_then_InrE conjE)
  apply (clarsimp simp: size_at_Inr assert_dims_Inr is_dims_False is_dims_cache reshape_Inr)
  apply (auto simp: permute_def ID_defs split: if_splits)[1]
  done


text \<open>Given its five memories, the step fails with a \<open>ShapeError\<close> or not at all.\<close>

lemma gather_Inl:
  assumes "gatherConcatPastkvForPagedAttn inputs = Inl e"
    and "ID_SLOT_MAPPING < length inputs"
  shows "e = ShapeError"
  using assms
  unfolding gatherConcatPastkvForPagedAttn_def Let_def
  apply (elim and_then_InlE)
  apply (auto dest: size_at_Inl assert_dims_Inl reshape_Inl permute_Inl input_at_Inl
              simp: ID_defs split: if_splits elim!: and_then_InlE)
  done

lemma gather_not_Inr:
  assumes "ID_SLOT_MAPPING < length inputs"
    and "\<And>c. gatherConcatPastkvForPagedAttn inputs \<noteq> Inr c"
  shows "gatherConcatPastkvForPagedAttn inputs = Inl ShapeError"
proof (cases "gatherConcatPastkvForPagedAttn inputs")
  case (Inl e)
  with gather_Inl [OF Inl assms(1)] show ?thesis by simp
next
  case (Inr c)
  with assms(2) [of c] show ?thesis by simp
qed

lemmas example_defs =
  example_plain_def example_quant_def example_head_mismatch_def
  example_block_mismatch_def example_zero_extent_def example_inputs_def

lemmas gather_eval =
  gatherConcatPastkvForPagedAttn_def input_at_def size_at_def assert_dims_def
  is_dims_def reshape_def permute_def reset_def element_count_def ID_defs Let_def

text \<open>
  C3. In every call of the cache-population step that reaches a writer, the writer is
  chosen by the declared element type of the K-cache alone: \<open>u8\<close> gives
  \<open>paged_attn_quantkv\<close>, every other type gives \<open>paged_attn_memcpy\<close>. The step ends
  in one call of one writer, which is handed the whole caches: nothing is decided per
  token.
\<close>

theorem writer_selected_by_k_cache_type:
  assumes "gatherConcatPastkvForPagedAttn inputs = Inr c"
  shows "(is_quantkv c \<longleftrightarrow> mem_prec (inputs ! ID_KCACHE) = u8)
       \<and> call_k_cache c = reset (inputs ! ID_KCACHE)
       \<and> call_v_cache c = reset (inputs ! ID_VCACHE)"
  using gather_Inr [OF assms] by (auto split: if_splits)

theorem writer_selected_by_k_cache_type_witness:
  "gatherConcatPastkvForPagedAttn example_quant
     = Inr (projr (gatherConcatPastkvForPagedAttn example_quant))
   \<and> is_quantkv (projr (gatherConcatPastkvForPagedAttn example_quant))
   \<and> mem_prec (example_quant ! ID_KCACHE) = u8
   \<and> gatherConcatPastkvForPagedAttn example_plain
     = Inr (projr (gatherConcatPastkvForPagedAttn example_plain))
   \<and> \<not> is_quantkv (projr (gatherConcatPastkvForPagedAttn example_plain))
   \<and> mem_prec (example_plain ! ID_KCACHE) = f32"
proof -
  have q: "gatherConcatPastkvForPagedAttn example_quant
             = Inr (projr (gatherConcatPastkvForPagedAttn example_quant))"
    by (simp add: example_defs gather_eval)
  have p: "gatherConcatPastkvForPagedAttn example_plain
             = Inr (projr (gatherConcatPastkvForPagedAttn example_plain))"
    by (simp add: example_defs gather_eval)
  have tq: "mem_prec (example_quant ! ID_KCACHE) = u8"
    by (simp add: example_defs ID_defs)
  have tp: "mem_prec (example_plain ! ID_KCACHE) = f32"
    by (simp add: example_defs ID_defs)
  from writer_selected_by_k_cache_type [OF q] writer_selected_by_k_cache_type [OF p] q p tq tp
  show ?thesis by simp
qed



text \<open>
  C6. Given its input memories, a call of the cache-population step that reaches a
  writer has a K-cache and a V-cache of rank 4 that agree on the number of blocks
  (axis 0), the number of heads (axis 1) and the block size (axis 2); a V-cache that
  differs from the K-cache on one of these axes makes the call fail with a
  \<open>ShapeError\<close>.
\<close>

theorem caches_agree_on_blocks_heads_block_size:
  assumes "ID_SLOT_MAPPING < length inputs"
  shows "(\<forall>c. gatherConcatPastkvForPagedAttn inputs = Inr c \<longrightarrow>
            length (m_dims (call_k_cache c)) = 4 \<and> length (m_dims (call_v_cache c)) = 4
          \<and> m_dims (call_k_cache c) ! 0 = m_dims (call_v_cache c) ! 0
          \<and> m_dims (call_k_cache c) ! 1 = m_dims (call_v_cache c) ! 1
          \<and> m_dims (call_k_cache c) ! 2 = m_dims (call_v_cache c) ! 2)
       \<and> (take 3 (mem_dims (inputs ! ID_VCACHE)) \<noteq> take 3 (mem_dims (inputs ! ID_KCACHE))
            \<longrightarrow> gatherConcatPastkvForPagedAttn inputs = Inl ShapeError)"
proof -
  have ok: "length (m_dims (call_k_cache c)) = 4 \<and> length (m_dims (call_v_cache c)) = 4
          \<and> m_dims (call_k_cache c) ! 0 = m_dims (call_v_cache c) ! 0
          \<and> m_dims (call_k_cache c) ! 1 = m_dims (call_v_cache c) ! 1
          \<and> m_dims (call_k_cache c) ! 2 = m_dims (call_v_cache c) ! 2
          \<and> take 3 (mem_dims (inputs ! ID_VCACHE)) = take 3 (mem_dims (inputs ! ID_KCACHE))"
    if "gatherConcatPastkvForPagedAttn inputs = Inr c" for c
  proof -
    from gather_Inr [OF that] obtain H NB BS W k v where
      kc: "mem_dims (inputs ! ID_KCACHE) = [NB, H, BS, W]" and
      vc: "mem_dims (inputs ! ID_VCACHE) = [NB, H, BS, mem_dims (inputs ! ID_VCACHE) ! 3]" and
      c: "c = (if mem_prec (inputs ! ID_KCACHE) = u8
                then paged_attn_quantkv k v (reset (inputs ! ID_KCACHE))
                       (reset (inputs ! ID_VCACHE)) (reset (inputs ! ID_SLOT_MAPPING))
                else paged_attn_memcpy k v (reset (inputs ! ID_KCACHE))
                       (reset (inputs ! ID_VCACHE)) (reset (inputs ! ID_SLOT_MAPPING)))"
      by blast
    have views: "m_dims (call_k_cache c) = [NB, H, BS, W]"
                "m_dims (call_v_cache c) = [NB, H, BS, mem_dims (inputs ! ID_VCACHE) ! 3]"
      using c kc vc by (simp_all split: if_splits)
    have "take 3 (mem_dims (inputs ! ID_VCACHE)) = take 3 (mem_dims (inputs ! ID_KCACHE))"
      by (subst vc, subst kc) (simp add: numeral_3_eq_3)
    with views show ?thesis by simp
  qed
  have bad: "gatherConcatPastkvForPagedAttn inputs = Inl ShapeError"
    if "take 3 (mem_dims (inputs ! ID_VCACHE)) \<noteq> take 3 (mem_dims (inputs ! ID_KCACHE))"
  proof (rule gather_not_Inr [OF assms])
    fix c
    show "gatherConcatPastkvForPagedAttn inputs \<noteq> Inr c"
    proof
      assume "gatherConcatPastkvForPagedAttn inputs = Inr c"
      from ok [OF this] that show False by blast
    qed
  qed
  from ok bad show ?thesis by blast
qed

theorem caches_agree_on_blocks_heads_block_size_witness:
  "ID_SLOT_MAPPING < length example_block_mismatch
   \<and> take 3 (mem_dims (example_block_mismatch ! ID_VCACHE))
       \<noteq> take 3 (mem_dims (example_block_mismatch ! ID_KCACHE))
   \<and> gatherConcatPastkvForPagedAttn example_block_mismatch = Inl ShapeError
   \<and> ID_SLOT_MAPPING < length example_quant
   \<and> gatherConcatPastkvForPagedAttn example_quant
       = Inr (projr (gatherConcatPastkvForPagedAttn example_quant))
   \<and> m_dims (call_k_cache (projr (gatherConcatPastkvForPagedAttn example_quant))) ! 0
       = m_dims (call_v_cache (projr (gatherConcatPastkvForPagedAttn example_quant))) ! 0
   \<and> m_dims (call_k_cache (projr (gatherConcatPastkvForPagedAttn example_quant))) ! 1
       = m_dims (call_v_cache (projr (gatherConcatPastkvForPagedAttn example_quant))) ! 1
   \<and> m_dims (call_k_cache (projr (gatherConcatPastkvForPagedAttn example_quant))) ! 2
       = m_dims (call_v_cache (projr (gatherConcatPastkvForPagedAttn example_quant))) ! 2"
proof -
  have l1: "ID_SLOT_MAPPING < length example_block_mismatch"
    by (simp add: example_defs ID_defs)
  have l2: "ID_SLOT_MAPPING < length example_quant"
    by (simp add: example_defs ID_defs)
  have m: "take 3 (mem_dims (example_block_mismatch ! ID_VCACHE))
             \<noteq> take 3 (mem_dims (example_block_mismatch ! ID_KCACHE))"
    by (simp add: example_defs ID_defs)
  have q: "gatherConcatPastkvForPagedAttn example_quant
             = Inr (projr (gatherConcatPastkvForPagedAttn example_quant))"
    by (simp add: example_defs gather_eval)
  from caches_agree_on_blocks_heads_block_size [OF l1] m
  have bad: "gatherConcatPastkvForPagedAttn example_block_mismatch = Inl ShapeError"
    by blast
  from caches_agree_on_blocks_heads_block_size [OF l2] q l1 l2 m bad
  show ?thesis by blast
qed

text \<open>
  Where the last extent of the V-cache is not 0, the check of the K-cache does enforce
  its last extent: both caches have the last extent the head dimension was derived from.
\<close>

lemma k_cache_last_extent_checked:
  assumes "gatherConcatPastkvForPagedAttn inputs = Inr c"
    and "mem_dims (inputs ! ID_VCACHE) ! 3 \<noteq> 0"
  shows "m_dims (call_k_cache c) ! 3 = head_dim inputs + (if is_quantkv c then 8 else 0)
       \<and> m_dims (call_v_cache c) ! 3 = head_dim inputs + (if is_quantkv c then 8 else 0)"
proof -
  from gather_Inr [OF assms(1)] obtain H NB BS W k v where
    kc: "mem_dims (inputs ! ID_KCACHE) = [NB, H, BS, W]" and
    W: "W = mem_dims (inputs ! ID_VCACHE) ! 3 \<or> mem_dims (inputs ! ID_VCACHE) ! 3 = 0" and
    c: "c = (if mem_prec (inputs ! ID_KCACHE) = u8
              then paged_attn_quantkv k v (reset (inputs ! ID_KCACHE))
                     (reset (inputs ! ID_VCACHE)) (reset (inputs ! ID_SLOT_MAPPING))
              else paged_attn_memcpy k v (reset (inputs ! ID_KCACHE))
                     (reset (inputs ! ID_VCACHE)) (reset (inputs ! ID_SLOT_MAPPING)))"
    by blast
  from W assms(2) have "W = mem_dims (inputs ! ID_VCACHE) ! 3" by simp
  with kc c show ?thesis
    by (simp add: head_dim_def split: if_splits)
qed

text \<open>
  C7. The property asked for: the last extent of the K-cache and of the V-cache is the
  head dimension plus 8 for a quantized (\<open>u8\<close>) cache, and the head dimension itself for
  a cache that is not quantized. What the code does for plain caches where the V-cache
  has last extent 0 and the K-cache has last extent 64: the head dimension is derived
  from the V-cache and is 0, the expected last extent of the K-cache is then 0, which
  the check with wildcards on (\<^verbatim>\<open>k_cache.assert_dims({0, H, 0, S}, true)\<close>) takes for
  a wildcard, and the plain writer is called with views of head dimension 0 and a
  K-cache of last extent 64.
\<close>

theorem k_cache_last_extent_unchecked_at_zero:
  "mem_prec (example_zero_extent ! ID_KCACHE) = f32
   \<and> mem_dims (example_zero_extent ! ID_KCACHE) = [4, 2, 32, 64]
   \<and> mem_dims (example_zero_extent ! ID_VCACHE) = [4, 2, 32, 0]
   \<and> head_dim example_zero_extent = 0
   \<and> gatherConcatPastkvForPagedAttn example_zero_extent
     = Inr (projr (gatherConcatPastkvForPagedAttn example_zero_extent))
   \<and> \<not> is_quantkv (projr (gatherConcatPastkvForPagedAttn example_zero_extent))
   \<and> m_dims (call_k (projr (gatherConcatPastkvForPagedAttn example_zero_extent))) = [1, 2, 1, 0]
   \<and> m_dims (call_k_cache (projr (gatherConcatPastkvForPagedAttn example_zero_extent)))
       = [4, 2, 32, 64]
   \<and> m_dims (call_k_cache (projr (gatherConcatPastkvForPagedAttn example_zero_extent))) ! 3
       \<noteq> m_dims (call_k (projr (gatherConcatPastkvForPagedAttn example_zero_extent))) ! 3"
  by (simp add: example_defs gather_eval head_dim_def)

subsection \<open>Setting a node up\<close>

lemmas node_example_defs =
  example_ports_def example_op_def example_node_def example_make_pa_executor_def
  example_x86_bf16_def example_x86_def example_other_arch_def

lemmas port_defs =
  getOriginalInputPrecisionAtPort_def getInputShapeAtPort_def getOutputShapeAtPort_def
  port_at_def getOriginalInputsNumber_def getOriginalOutputsNumber_def

text \<open>Both returns of \<open>isSupportedOperation\<close> are \<^verbatim>\<open>true\<close>: the constructor never throws.\<close>

lemma isSupportedOperation_True: "isSupportedOperation op errorMessage = (True, errorMessage)"
  by (simp add: isSupportedOperation_def Let_def)

lemma PagedAttention_Inr:
  "PagedAttention op = Inr \<lparr>in_ports = op_inputs op, out_ports = op_outputs op,
                            supportedPrimitiveDescriptors = [], m_executor = None\<rparr>"
  by (simp add: PagedAttention_def isSupportedOperation_True)

lemma init_wrong_count:
  assumes "supportedPrimitiveDescriptors node = []"
    and "length (in_ports node) \<noteq> 13" and "length (in_ports node) \<noteq> 14"
  shows "\<exists>msg. initSupportedPrimitiveDescriptors pf node = Inl (ConfigurationError msg)"
  using assms
  by (simp add: initSupportedPrimitiveDescriptors_def getRuntimePrecision_def setInConf_def
        port_defs Let_def)

lemma init_assertion:
  assumes "supportedPrimitiveDescriptors node = []"
    and "length (in_ports node) \<noteq> 13" and "length (in_ports node) \<noteq> 14"
    and "3 \<le> length (in_ports node)"
  shows "initSupportedPrimitiveDescriptors pf node
           = Inl (ConfigurationError ''The input number of PagedAttention should be 13 or 14.'')"
  using assms
  by (auto simp: initSupportedPrimitiveDescriptors_def getRuntimePrecision_def setInConf_def
        port_defs Let_def)

lemma setInConf_Inr:
  "port < length (in_ports node) \<Longrightarrow>
     setInConf node port prec config =
       Inr (config\<lparr>inConfs := (inConfs config)
              [port := Some (createSharedDesc prec (port_shape (in_ports node ! port)))]\<rparr>)"
  by (simp add: setInConf_def port_defs)

lemma init_right_count:
  assumes "supportedPrimitiveDescriptors node = []"
    and "length (in_ports node) = 13 \<or> length (in_ports node) = 14"
    and "out_ports node \<noteq> []"
  shows "\<exists>node'. initSupportedPrimitiveDescriptors pf node = Inr node'
           \<and> length (supportedPrimitiveDescriptors node') = 1
           \<and> in_ports node' = in_ports node \<and> m_executor node' = m_executor node"
  using assms(2)
proof
  assume n: "length (in_ports node) = 13"
  show ?thesis
    using assms(1,3) n
    by (simp add: initSupportedPrimitiveDescriptors_def getRuntimePrecision_def setInConf_Inr
          setOutConf_def port_defs ID_defs Let_def)
next
  assume n: "length (in_ports node) = 14"
  show ?thesis
    using assms(1,3) n
    by (simp add: initSupportedPrimitiveDescriptors_def getRuntimePrecision_def setInConf_Inr
          setOutConf_def port_defs ID_defs Let_def)
qed

text \<open>
  C1. The property asked for: an operation with exactly 12 inputs is reported as
  unsupported by \<open>isSupportedOperation\<close>. What the code does at that input: a
  PagedAttentionExtension operation with 12 inputs is reported as supported, no message
  is set, and the constructor returns a node.
\<close>

theorem isSupportedOperation_twelve_inputs:
  "get_type_name (example_op f32 u8 12) = ''PagedAttentionExtension''
   \<and> get_input_size (example_op f32 u8 12) = 12
   \<and> isSupportedOperation (example_op f32 u8 12) [] = (True, [])
   \<and> \<not> isl (PagedAttention (example_op f32 u8 12) :: error + (Type_t \<times> Type_t) Node)"
  by (simp add: isSupportedOperation_True PagedAttention_Inr get_type_name_def
        get_input_size_def node_example_defs)

text \<open>
  C2. Setting a node up is the constructor followed by the initialisation of the
  descriptors; nothing is executed by either. For every input count other than 13 and
  14 it fails with a \<open>ConfigurationError\<close>, raised by the initialisation of the
  descriptors (from three inputs on by its assertion on the input number); with 13 or
  14 inputs, and an output port, it returns a node with one descriptor and no executor
  yet.
\<close>

theorem setup_node_input_count:
  "(length (op_inputs op) \<noteq> 13 \<and> length (op_inputs op) \<noteq> 14 \<longrightarrow>
      (\<exists>msg. (setup_node pf op :: error + 'ex Node) = Inl (ConfigurationError msg)))
   \<and> (length (op_inputs op) \<noteq> 13 \<and> length (op_inputs op) \<noteq> 14 \<and> 3 \<le> length (op_inputs op) \<longrightarrow>
      (setup_node pf op :: error + 'ex Node)
        = Inl (ConfigurationError ''The input number of PagedAttention should be 13 or 14.''))
   \<and> ((length (op_inputs op) = 13 \<or> length (op_inputs op) = 14) \<and> op_outputs op \<noteq> [] \<longrightarrow>
      (\<exists>node. (setup_node pf op :: error + 'ex Node) = Inr node
         \<and> length (supportedPrimitiveDescriptors node) = 1 \<and> m_executor node = None))"
proof -
  let ?node = "\<lparr>in_ports = op_inputs op, out_ports = op_outputs op,
                 supportedPrimitiveDescriptors = [], m_executor = None\<rparr> :: 'ex Node"
  have s: "(setup_node pf op :: error + 'ex Node) = initSupportedPrimitiveDescriptors pf ?node"
    by (simp add: setup_node_def PagedAttention_Inr)
  have a: "\<exists>msg. initSupportedPrimitiveDescriptors pf ?node = Inl (ConfigurationError msg)"
    if "length (op_inputs op) \<noteq> 13" "length (op_inputs op) \<noteq> 14"
    using that by (intro init_wrong_count) simp_all
  have b: "initSupportedPrimitiveDescriptors pf ?node
             = Inl (ConfigurationError ''The input number of PagedAttention should be 13 or 14.'')"
    if "length (op_inputs op) \<noteq> 13" "length (op_inputs op) \<noteq> 14" "3 \<le> length (op_inputs op)"
    using that by (intro init_assertion) simp_all
  have c: "\<exists>node. initSupportedPrimitiveDescriptors pf ?node = Inr node
         \<and> length (supportedPrimitiveDescriptors node) = 1 \<and> m_executor node = None"
    if "length (op_inputs op) = 13 \<or> length (op_inputs op) = 14" "op_outputs op \<noteq> []"
    using init_right_count [of ?node pf] that by auto
  from a b c show ?thesis unfolding s by blast
qed

theorem setup_node_input_count_witness:
  "length (op_inputs (example_op f32 u8 12)) \<noteq> 13
   \<and> length (op_inputs (example_op f32 u8 12)) \<noteq> 14
   \<and> 3 \<le> length (op_inputs (example_op f32 u8 12))
   \<and> (setup_node example_x86 (example_op f32 u8 12) :: error + (Type_t \<times> Type_t) Node)
       = Inl (ConfigurationError ''The input number of PagedAttention should be 13 or 14.'')
   \<and> length (op_inputs (example_op f32 u8 13)) = 13
   \<and> op_outputs (example_op f32 u8 13) \<noteq> []
   \<and> \<not> isl (setup_node example_x86 (example_op f32 u8 13) :: error + (Type_t \<times> Type_t) Node)
   \<and> length (op_inputs (example_op f32 u8 14)) = 14
   \<and> \<not> isl (setup_node example_x86 (example_op f32 u8 14) :: error + (Type_t \<times> Type_t) Node)"
proof -
  have n12: "length (op_inputs (example_op f32 u8 12)) = 12"
    and n13: "length (op_inputs (example_op f32 u8 13)) = 13"
    and n14: "length (op_inputs (example_op f32 u8 14)) = 14"
    and o13: "op_outputs (example_op f32 u8 13) \<noteq> []"
    and o14: "op_outputs (example_op f32 u8 14) \<noteq> []"
    by (simp_all add: node_example_defs)
  from setup_node_input_count [where ?'ex = "Type_t \<times> Type_t", of "example_op f32 u8 12" example_x86] n12
  have r12: "(setup_node example_x86 (example_op f32 u8 12) :: error + (Type_t \<times> Type_t) Node)
       = Inl (ConfigurationError ''The input number of PagedAttention should be 13 or 14.'')"
    by simp
  from setup_node_input_count [where ?'ex = "Type_t \<times> Type_t", of "example_op f32 u8 13" example_x86] n13 o13
  have r13: "\<not> isl (setup_node example_x86 (example_op f32 u8 13) :: error + (Type_t \<times> Type_t) Node)"
    by auto
  from setup_node_input_count [where ?'ex = "Type_t \<times> Type_t", of "example_op f32 u8 14" example_x86] n14 o14
  have r14: "\<not> isl (setup_node example_x86 (example_op f32 u8 14) :: error + (Type_t \<times> Type_t) Node)"
    by auto
  from n12 n13 n14 o13 r12 r13 r14 show ?thesis by simp
qed

subsection \<open>The runtime precision\<close>

text \<open>
  C4. For a node with an input port 0 of precision \<open>p\<close>, \<open>getRuntimePrecision\<close>
  returns \<open>bf16\<close> if and only if \<open>p\<close> is \<open>bf16\<close> and the hardware supports \<open>bf16\<close>
  natively; in every other case it returns \<open>f32\<close>.
\<close>

theorem getRuntimePrecision_bf16_iff:
  "getOriginalInputPrecisionAtPort node 0 = Inr p \<Longrightarrow>
     (getRuntimePrecision pf node = Inr bf16 \<longleftrightarrow> p = bf16 \<and> with_cpu_x86_bfloat16 pf)
   \<and> (\<not> (p = bf16 \<and> with_cpu_x86_bfloat16 pf) \<longrightarrow> getRuntimePrecision pf node = Inr f32)"
  by (simp add: getRuntimePrecision_def)

theorem getRuntimePrecision_bf16_iff_witness:
  "getOriginalInputPrecisionAtPort (example_node bf16 u8 13) 0 = Inr bf16
   \<and> with_cpu_x86_bfloat16 example_x86_bf16
   \<and> getRuntimePrecision example_x86_bf16 (example_node bf16 u8 13) = Inr bf16
   \<and> \<not> with_cpu_x86_bfloat16 example_x86
   \<and> getRuntimePrecision example_x86 (example_node bf16 u8 13) = Inr f32"
proof -
  have p: "getOriginalInputPrecisionAtPort (example_node bf16 u8 13) 0 = Inr bf16"
    by (simp add: port_defs node_example_defs)
  have hw: "with_cpu_x86_bfloat16 example_x86_bf16" "\<not> with_cpu_x86_bfloat16 example_x86"
    by (simp_all add: node_example_defs)
  from getRuntimePrecision_bf16_iff [OF p, of example_x86_bf16]
       getRuntimePrecision_bf16_iff [OF p, of example_x86] p hw
  show ?thesis by simp
qed

text \<open>
  C10. Whatever \<open>getRuntimePrecision\<close> returns is \<open>bf16\<close> or \<open>f32\<close>; for every input
  precision at port 0 other than \<open>bf16\<close>, \<open>f16\<close> among them, it returns \<open>f32\<close>.
\<close>

theorem getRuntimePrecision_range:
  "(\<forall>t. getRuntimePrecision pf node = Inr t \<longrightarrow> t = bf16 \<or> t = f32)
   \<and> (\<forall>p. getOriginalInputPrecisionAtPort node 0 = Inr p \<and> p \<noteq> bf16
          \<longrightarrow> getRuntimePrecision pf node = Inr f32)"
  by (auto simp: getRuntimePrecision_def split: if_splits elim!: and_then_InrE)

theorem getRuntimePrecision_range_witness:
  "getOriginalInputPrecisionAtPort (example_node f16 u8 13) 0 = Inr f16
   \<and> f16 \<noteq> bf16
   \<and> getRuntimePrecision example_x86_bf16 (example_node f16 u8 13) = Inr f32"
proof -
  have p: "getOriginalInputPrecisionAtPort (example_node f16 u8 13) 0 = Inr f16"
    by (simp add: port_defs node_example_defs)
  from getRuntimePrecision_range [of example_x86_bf16 "example_node f16 u8 13"] p
  show ?thesis by simp
qed

subsection \<open>The executor and its cache\<close>

lemma getOrCreate_Some:
  assumes "getOrCreate cache \<lparr>rtPrecision = rt\<rparr> b = Inr (Some v, cache')"
  shows "cache_get cache' \<lparr>rtPrecision = rt\<rparr> = Some v"
  using assms
  by (auto simp: getOrCreate_def PagedAttentionKey_eq_def split: option.splits
           elim!: and_then_InrE)

lemma getOrCreate_hit:
  "cache_get cache key = Some v \<Longrightarrow> getOrCreate cache key b = Inr (Some v, cache)"
  by (simp add: getOrCreate_def)

lemma getOrCreate_miss_null:
  "cache_get cache key = None \<Longrightarrow> b key = Inr None \<Longrightarrow>
     getOrCreate cache key b = Inr (None, cache)"
  by (simp add: getOrCreate_def)

text \<open>A call that returns has stored an executor, and the cache holds it under the key.\<close>

lemma createPrimitive_Inr:
  assumes "createPrimitive pf mk (node, cache) = Inr (node', cache')"
  shows "\<exists>rt v. getRuntimePrecision pf node = Inr rt \<and> node' = node\<lparr>m_executor := Some v\<rparr>
           \<and> cache_get cache' \<lparr>rtPrecision = rt\<rparr> = Some v"
  using assms
  unfolding createPrimitive_def Let_def
  apply (simp only: prod.case)
  apply (elim and_then_InrE)
  subgoal for rt result
    by (cases result) (auto split: if_splits dest: getOrCreate_Some)
  done

lemma createPrimitive_hit:
  assumes "getRuntimePrecision pf node = Inr rt"
    and "cache_get cache \<lparr>rtPrecision = rt\<rparr> = Some v"
  shows "createPrimitive pf mk (node, cache) = Inr (node\<lparr>m_executor := Some v\<rparr>, cache)"
  using assms by (simp add: createPrimitive_def getOrCreate_hit)

lemma createPrimitive_null:
  assumes "getRuntimePrecision pf node = Inr rt"
    and "cache_get cache \<lparr>rtPrecision = rt\<rparr> = None"
    and "builder pf mk node rt \<lparr>rtPrecision = rt\<rparr> = Inr None"
  shows "createPrimitive pf mk (node, cache) =
     Inl (PrecisionError ''PagedAttention AttentionExecutor creation fails with precision '' rt)"
  using assms by (simp add: createPrimitive_def getOrCreate_miss_null)

lemmas createPrimitive_eval =
  createPrimitive_def getRuntimePrecision_def getOrCreate_def builder_def port_defs
  PagedAttentionKey_eq_def ID_defs Let_def

text \<open>
  C8. Whenever the cache has no executor for the key and the builder returns the null
  pointer, as it does on every platform other than x86-64, \<open>createPrimitive\<close> throws,
  with the runtime precision in the error; and a call of \<open>createPrimitive\<close> that
  returns has stored an executor that is not null.
\<close>

theorem createPrimitive_never_null:
  "(\<forall>node' cache'. createPrimitive pf mk (node, cache) = Inr (node', cache')
        \<longrightarrow> m_executor node' \<noteq> None)
   \<and> (\<forall>rt. getRuntimePrecision pf node = Inr rt
           \<and> cache_get cache \<lparr>rtPrecision = rt\<rparr> = None
           \<and> builder pf mk node rt \<lparr>rtPrecision = rt\<rparr> = Inr None
        \<longrightarrow> createPrimitive pf mk (node, cache)
              = Inl (PrecisionError
                      ''PagedAttention AttentionExecutor creation fails with precision '' rt))
   \<and> (\<forall>rt key. \<not> OPENVINO_ARCH_X86_64 pf \<longrightarrow> builder pf mk node rt key = Inr None)"
proof -
  have a: "m_executor node' \<noteq> None"
    if "createPrimitive pf mk (node, cache) = Inr (node', cache')" for node' cache'
    using createPrimitive_Inr [OF that] by auto
  have c: "builder pf mk node rt key = Inr None" if "\<not> OPENVINO_ARCH_X86_64 pf" for rt key
    using that by (simp add: builder_def)
  from a c createPrimitive_null [of pf node _ cache mk] show ?thesis by blast
qed

theorem createPrimitive_never_null_witness:
  "getRuntimePrecision example_other_arch (example_node f32 u8 13) = Inr f32
   \<and> cache_get ([] :: (Type_t \<times> Type_t) ParamsCache) \<lparr>rtPrecision = f32\<rparr> = None
   \<and> \<not> OPENVINO_ARCH_X86_64 example_other_arch
   \<and> builder example_other_arch example_make_pa_executor (example_node f32 u8 13) f32
       \<lparr>rtPrecision = f32\<rparr> = Inr None
   \<and> createPrimitive example_other_arch example_make_pa_executor (example_node f32 u8 13, [])
       = Inl (PrecisionError
               ''PagedAttention AttentionExecutor creation fails with precision '' f32)
   \<and> createPrimitive example_x86 example_make_pa_executor (example_node f32 u8 13, [])
       = Inr ((example_node f32 u8 13)\<lparr>m_executor := Some (f32, u8)\<rparr>,
              [(\<lparr>rtPrecision = f32\<rparr>, (f32, u8))])
   \<and> m_executor ((example_node f32 u8 13)\<lparr>m_executor := Some (f32, u8)\<rparr>) \<noteq> None"
proof -
  have rt: "getRuntimePrecision example_other_arch (example_node f32 u8 13) = Inr f32"
    by (simp add: getRuntimePrecision_def port_defs node_example_defs)
  have miss: "cache_get ([] :: (Type_t \<times> Type_t) ParamsCache) \<lparr>rtPrecision = f32\<rparr> = None"
    by simp
  have arch: "\<not> OPENVINO_ARCH_X86_64 example_other_arch"
    by (simp add: node_example_defs)
  have ok: "createPrimitive example_x86 example_make_pa_executor (example_node f32 u8 13, [])
       = Inr ((example_node f32 u8 13)\<lparr>m_executor := Some (f32, u8)\<rparr>,
              [(\<lparr>rtPrecision = f32\<rparr>, (f32, u8))])"
    by (simp add: createPrimitive_eval node_example_defs)
  note inst = createPrimitive_never_null
    [of example_other_arch example_make_pa_executor "example_node f32 u8 13" "[]"]
  from inst arch
  have null: "builder example_other_arch example_make_pa_executor (example_node f32 u8 13) f32
       \<lparr>rtPrecision = f32\<rparr> = Inr None"
    by blast
  from inst rt miss null
  have thrown: "createPrimitive example_other_arch example_make_pa_executor
                  (example_node f32 u8 13, [])
       = Inl (PrecisionError
               ''PagedAttention AttentionExecutor creation fails with precision '' f32)"
    by blast
  from createPrimitive_never_null
    [of example_x86 example_make_pa_executor "example_node f32 u8 13" "[]"] ok
  have stored: "m_executor ((example_node f32 u8 13)\<lparr>m_executor := Some (f32, u8)\<rparr>) \<noteq> None"
    by blast
  from rt miss arch null thrown ok stored show ?thesis by blast
qed

text \<open>
  C9. Two cache keys are equal if and only if their runtime precisions are equal, and
  equal keys have equal hashes. Consequently, once \<open>createPrimitive\<close> has returned for
  one node, \<open>createPrimitive\<close> for any node with the same runtime precision, on the
  cache the first call left, returns the executor the first node got and leaves the
  cache as it is; the precision of the second node's KV-cache is not looked at.
\<close>

theorem executor_shared_by_runtime_precision:
  "(PagedAttentionKey_eq a b \<longleftrightarrow> rtPrecision a = rtPrecision b)
   \<and> (PagedAttentionKey_eq a b \<longrightarrow>
        PagedAttentionKey_hash hash_combine Type_hash a
          = PagedAttentionKey_hash hash_combine Type_hash b)
   \<and> (\<forall>n1' c1. createPrimitive pf mk (n1, c0) = Inr (n1', c1)
           \<and> getRuntimePrecision pf n2 = getRuntimePrecision pf n1
        \<longrightarrow> createPrimitive pf mk (n2, c1) = Inr (n2\<lparr>m_executor := m_executor n1'\<rparr>, c1))"
proof -
  have eq: "PagedAttentionKey_eq a b \<longleftrightarrow> rtPrecision a = rtPrecision b"
    by (simp add: PagedAttentionKey_eq_def)
  have hash: "PagedAttentionKey_hash hash_combine Type_hash a
                = PagedAttentionKey_hash hash_combine Type_hash b"
    if "PagedAttentionKey_eq a b"
    using that by (simp add: PagedAttentionKey_eq_def PagedAttentionKey_hash_def)
  have shared: "createPrimitive pf mk (n2, c1) = Inr (n2\<lparr>m_executor := m_executor n1'\<rparr>, c1)"
    if first: "createPrimitive pf mk (n1, c0) = Inr (n1', c1)"
      and same: "getRuntimePrecision pf n2 = getRuntimePrecision pf n1" for n1' c1
  proof -
    from createPrimitive_Inr [OF first] obtain rt v where
      rt: "getRuntimePrecision pf n1 = Inr rt" and
      n1': "n1' = n1\<lparr>m_executor := Some v\<rparr>" and
      held: "cache_get c1 \<lparr>rtPrecision = rt\<rparr> = Some v"
      by blast
    from same rt have "getRuntimePrecision pf n2 = Inr rt" by simp
    from createPrimitive_hit [OF this held, of mk] n1' show ?thesis by simp
  qed
  from eq hash shared show ?thesis by blast
qed

theorem executor_shared_by_runtime_precision_witness:
  "PagedAttentionKey_eq \<lparr>rtPrecision = f32\<rparr> \<lparr>rtPrecision = f32\<rparr>
   \<and> PagedAttentionKey_hash example_hash_combine example_Type_hash \<lparr>rtPrecision = f32\<rparr> = 5
   \<and> createPrimitive example_x86 example_make_pa_executor (example_node f32 u8 13, [])
       = Inr ((example_node f32 u8 13)\<lparr>m_executor := Some (f32, u8)\<rparr>,
              [(\<lparr>rtPrecision = f32\<rparr>, (f32, u8))])
   \<and> getRuntimePrecision example_x86 (example_node f32 f32 13)
       = getRuntimePrecision example_x86 (example_node f32 u8 13)
   \<and> getOriginalInputPrecisionAtPort (example_node f32 f32 13) ID_KCACHE = Inr f32
   \<and> createPrimitive example_x86 example_make_pa_executor
        (example_node f32 f32 13, [(\<lparr>rtPrecision = f32\<rparr>, (f32, u8))])
       = Inr ((example_node f32 f32 13)\<lparr>m_executor := Some (f32, u8)\<rparr>,
              [(\<lparr>rtPrecision = f32\<rparr>, (f32, u8))])"
proof -
  have first: "createPrimitive example_x86 example_make_pa_executor (example_node f32 u8 13, [])
       = Inr ((example_node f32 u8 13)\<lparr>m_executor := Some (f32, u8)\<rparr>,
              [(\<lparr>rtPrecision = f32\<rparr>, (f32, u8))])"
    by (simp add: createPrimitive_eval node_example_defs)
  have same: "getRuntimePrecision example_x86 (example_node f32 f32 13)
       = getRuntimePrecision example_x86 (example_node f32 u8 13)"
    by (simp add: getRuntimePrecision_def port_defs node_example_defs)
  have kv: "getOriginalInputPrecisionAtPort (example_node f32 f32 13) ID_KCACHE = Inr f32"
    by (simp add: port_defs node_example_defs ID_defs)
  have h: "PagedAttentionKey_hash example_hash_combine example_Type_hash \<lparr>rtPrecision = f32\<rparr> = 5"
    by (simp add: PagedAttentionKey_hash_def example_hash_combine_def example_Type_hash_def)
  note inst = executor_shared_by_runtime_precision
    [of "\<lparr>rtPrecision = f32\<rparr>" "\<lparr>rtPrecision = f32\<rparr>" example_hash_combine example_Type_hash
        example_x86 example_make_pa_executor "example_node f32 u8 13" "[]"
        "example_node f32 f32 13"]
  from inst have k: "PagedAttentionKey_eq \<lparr>rtPrecision = f32\<rparr> \<lparr>rtPrecision = f32\<rparr>"
    by simp
  from inst first same
  have second: "createPrimitive example_x86 example_make_pa_executor
        (example_node f32 f32 13, [(\<lparr>rtPrecision = f32\<rparr>, (f32, u8))])
       = Inr ((example_node f32 f32 13)
                \<lparr>m_executor := m_executor ((example_node f32 u8 13)\<lparr>m_executor := Some (f32, u8)\<rparr>)\<rparr>,
              [(\<lparr>rtPrecision = f32\<rparr>, (f32, u8))])"
    by blast
  from k h first same kv second show ?thesis by simp
qed

end
